theory Spec2Isabelle
  imports Main
begin

section \<open>Failable results\<close>

text \<open>
  The service returns \<open>AsyncFailable<T>\<close>: either a value or a failure built by
  \<open>Fail(reason)\<close>. A failure carries its reason (a message, or the caught
  exception, which is represented here by its message). \<open>HasFailed\<close> and
  \<open>HasSuccess\<close> test which side a result is on.
\<close>

datatype failure = Fail string

type_synonym 'a failable = "failure + 'a"

fun getReason :: "failure \<Rightarrow> string" where
  "getReason (Fail reason) = reason"

definition HasFailed :: "'a failable \<Rightarrow> bool" where
  "HasFailed r = (case r of Inl _ \<Rightarrow> True | Inr _ \<Rightarrow> False)"

definition HasSuccess :: "'a failable \<Rightarrow> bool" where
  "HasSuccess r = (case r of Inl _ \<Rightarrow> False | Inr _ \<Rightarrow> True)"

section \<open>Accounts, configuration and collaborators\<close>

text \<open>
  \<open>EUserBackend\<close>: the identifier is optional on the entity (it is absent until
  the row is stored), and so is the hashed password (a column that is only
  selected on request).
\<close>

record EUserBackend =
  id_user :: "string option"
  username :: string
  hashedPassword :: "string option"
  roles :: "string list"

type_synonym Permissions = "string list"

text \<open>
  The constants of \<open>roles.const\<close> and \<open>special-users.const\<close> and the
  collaborators of \<open>UsersService\<close> (bcrypt, the preference service, the role
  service) are parameters of the model.
\<close>

record env =
  DefaultRolesList :: "string list"
  SoulBoundRolesList :: "string list"
  ImmutableUsersList :: "string list"
  LockedLoginUsersList :: "string list"
  UndeletableUsersList :: "string list"
  bcrypt_hash :: "string \<Rightarrow> nat \<Rightarrow> string"
  bcrypt_compare :: "string \<Rightarrow> string \<Rightarrow> bool"
  getNumberPreference_BCryptStrength :: "nat failable"
  rolesService_getPermissions :: "string list \<Rightarrow> Permissions failable"

text \<open>
  Modelled from the spec: \<open>makeUnique\<close> is imported from
  \<open>picsur-shared/dist/util/unique\<close>, whose text is missing; the specification
  says of every use that the role list is deduplicated. The model keeps the
  first occurrence of each element.
\<close>

fun makeUnique :: "'a list \<Rightarrow> 'a list" where
  "makeUnique [] = []"
| "makeUnique (x # xs) = x # makeUnique (filter (\<lambda>y. y \<noteq> x) xs)"

section \<open>The repository\<close>

text \<open>
  The TypeORM repository is a table of rows. Every call on it and every call of
  bcrypt is recorded in \<open>calls\<close>, oldest first. A repository call may throw:
  \<open>faults\<close> is the schedule of what the coming repository calls do, one entry
  per call (\<open>Some e\<close>: the call throws \<open>e\<close> and leaves the table alone;
  \<open>None\<close>, or an exhausted schedule: the call is carried out).
\<close>

datatype call =
    FindOneByUsername string bool
  | FindOneById string
  | Save EUserBackend
  | Remove EUserBackend
  | BcryptHash string nat
  | BcryptCompare string string

record world =
  rows :: "EUserBackend list"
  faults :: "string option list"
  calls :: "call list"

definition record_call :: "call \<Rightarrow> world \<Rightarrow> world" where
  "record_call c w = w\<lparr>calls := calls w @ [c]\<rparr>"

definition next_fault :: "world \<Rightarrow> string option \<times> world" where
  "next_fault w =
     (case faults w of
        [] \<Rightarrow> (None, w)
      | f # fs \<Rightarrow> (f, w\<lparr>faults := fs\<rparr>))"

text \<open>Columns that are not selected by default come back undefined.\<close>

definition without_private :: "EUserBackend \<Rightarrow> EUserBackend" where
  "without_private u = u\<lparr>hashedPassword := None\<rparr>"

definition repo_findOne_username ::
  "string \<Rightarrow> bool \<Rightarrow> world \<Rightarrow> (string + EUserBackend option) \<times> world" where
  "repo_findOne_username name getPrivate w =
     (case next_fault (record_call (FindOneByUsername name getPrivate) w) of
        (Some e, w') \<Rightarrow> (Inl e, w')
      | (None, w') \<Rightarrow>
          (Inr (map_option (if getPrivate then (\<lambda>u. u) else without_private)
                  (find (\<lambda>u. username u = name) (rows w'))), w'))"

definition repo_findOne_id ::
  "string \<Rightarrow> world \<Rightarrow> (string + EUserBackend option) \<times> world" where
  "repo_findOne_id uuid w =
     (case next_fault (record_call (FindOneById uuid) w) of
        (Some e, w') \<Rightarrow> (Inl e, w')
      | (None, w') \<Rightarrow>
          (Inr (map_option without_private
                  (find (\<lambda>u. id_user u = Some uuid) (rows w'))), w'))"

text \<open>The generated identifier of a new row: longer than every identifier in the table.\<close>

definition fresh_id :: "EUserBackend list \<Rightarrow> string" where
  "fresh_id rs =
     replicate
       (Suc (foldr max (map (\<lambda>r. case id_user r of None \<Rightarrow> 0 | Some i \<Rightarrow> length i) rs) 0))
       (CHR ''u'')"

text \<open>
  \<open>save\<close> writes the defined properties of the entity to the row with its
  identifier, and inserts a row when there is none (generating the identifier
  when the entity has none). It returns the entity.
\<close>

definition merge_row :: "EUserBackend \<Rightarrow> EUserBackend \<Rightarrow> EUserBackend" where
  "merge_row u r =
     r\<lparr>username := username u,
       roles := roles u,
       hashedPassword := (case hashedPassword u of None \<Rightarrow> hashedPassword r | Some h \<Rightarrow> Some h)\<rparr>"

definition repo_save :: "EUserBackend \<Rightarrow> world \<Rightarrow> (string + EUserBackend) \<times> world" where
  "repo_save u w =
     (case next_fault (record_call (Save u) w) of
        (Some e, w') \<Rightarrow> (Inl e, w')
      | (None, w') \<Rightarrow>
          (case id_user u of
             None \<Rightarrow>
               (let u' = u\<lparr>id_user := Some (fresh_id (rows w'))\<rparr>
                in (Inr u', w'\<lparr>rows := rows w' @ [u']\<rparr>))
           | Some i \<Rightarrow>
               if \<exists>r \<in> set (rows w'). id_user r = Some i
               then (Inr u,
                     w'\<lparr>rows := map (\<lambda>r. if id_user r = Some i then merge_row u r else r) (rows w')\<rparr>)
               else (Inr u, w'\<lparr>rows := rows w' @ [u]\<rparr>)))"

text \<open>
  \<open>remove\<close> deletes the row with the identifier of the entity and returns the
  entity with its identifier cleared.
\<close>

definition repo_remove :: "EUserBackend \<Rightarrow> world \<Rightarrow> (string + EUserBackend) \<times> world" where
  "repo_remove u w =
     (case next_fault (record_call (Remove u) w) of
        (Some e, w') \<Rightarrow> (Inl e, w')
      | (None, w') \<Rightarrow>
          (Inr (u\<lparr>id_user := None\<rparr>),
           w'\<lparr>rows := filter (\<lambda>r. id_user r \<noteq> id_user u) (rows w')\<rparr>))"

section \<open>UsersService\<close>

definition findByUsername ::
  "string \<Rightarrow> bool \<Rightarrow> world \<Rightarrow> EUserBackend failable \<times> world" where
  "findByUsername name getPrivate w =
     (case repo_findOne_username name getPrivate w of
        (Inl e, w') \<Rightarrow> (Inl (Fail e), w')
      | (Inr None, w') \<Rightarrow> (Inl (Fail ''User not found''), w')
      | (Inr (Some found), w') \<Rightarrow> (Inr found, w'))"

definition findOne :: "string \<Rightarrow> world \<Rightarrow> EUserBackend failable \<times> world" where
  "findOne uuid w =
     (case repo_findOne_id uuid w of
        (Inl e, w') \<Rightarrow> (Inl (Fail e), w')
      | (Inr None, w') \<Rightarrow> (Inl (Fail ''User not found''), w')
      | (Inr (Some found), w') \<Rightarrow> (Inr found, w'))"

definition exists :: "string \<Rightarrow> world \<Rightarrow> bool \<times> world" where
  "exists name w =
     (case findByUsername name False w of (r, w') \<Rightarrow> (HasSuccess r, w'))"

definition filterAddedRoles :: "env \<Rightarrow> string list \<Rightarrow> string list" where
  "filterAddedRoles E rs = filter (\<lambda>role. role \<notin> set (SoulBoundRolesList E)) rs"

definition getBCryptStrength :: "env \<Rightarrow> nat" where
  "getBCryptStrength E =
     (case getNumberPreference_BCryptStrength E of Inl _ \<Rightarrow> 12 | Inr n \<Rightarrow> n)"

text \<open>
  \<open>create\<close>: the optional arguments \<open>roles\<close> and \<open>byPassRoleCheck\<close> are
  options; an omitted \<open>byPassRoleCheck\<close> is falsy.
\<close>

definition create ::
  "env \<Rightarrow> string \<Rightarrow> string \<Rightarrow> string list option \<Rightarrow> bool option \<Rightarrow> world
     \<Rightarrow> EUserBackend failable \<times> world" where
  "create E name password rs byPassRoleCheck w =
     (case exists name w of
        (True, w1) \<Rightarrow> (Inl (Fail ''User already exists''), w1)
      | (False, w1) \<Rightarrow>
          (let strength = getBCryptStrength E;
               w2 = record_call (BcryptHash password strength) w1;
               hashed = bcrypt_hash E password strength;
               requested = (case rs of None \<Rightarrow> [] | Some l \<Rightarrow> l);
               user = \<lparr>id_user = None, username = name, hashedPassword = Some hashed,
                       roles = (if byPassRoleCheck = Some True
                                then makeUnique requested
                                else makeUnique (DefaultRolesList E @ filterAddedRoles E requested))\<rparr>
           in (case repo_save user w2 of
                 (Inl e, w3) \<Rightarrow> (Inl (Fail e), w3)
               | (Inr saved, w3) \<Rightarrow> (Inr saved, w3))))"

definition delete :: "env \<Rightarrow> string \<Rightarrow> world \<Rightarrow> EUserBackend failable \<times> world" where
  "delete E uuid w =
     (case findOne uuid w of
        (Inl f, w1) \<Rightarrow> (Inl f, w1)
      | (Inr userToModify, w1) \<Rightarrow>
          if username userToModify \<in> set (UndeletableUsersList E)
          then (Inl (Fail ''Cannot delete system user''), w1)
          else (case repo_remove userToModify w1 of
                  (Inl e, w2) \<Rightarrow> (Inl (Fail e), w2)
                | (Inr removed, w2) \<Rightarrow> (Inr removed, w2)))"

definition setRoles ::
  "env \<Rightarrow> string \<Rightarrow> string list \<Rightarrow> world \<Rightarrow> EUserBackend failable \<times> world" where
  "setRoles E uuid rs w =
     (case findOne uuid w of
        (Inl f, w1) \<Rightarrow> (Inl f, w1)
      | (Inr userToModify, w1) \<Rightarrow>
          if username userToModify \<in> set (ImmutableUsersList E)
          then (Inr userToModify, w1)
          else
            (let rolesToKeep = filter (\<lambda>role. role \<in> set (SoulBoundRolesList E)) (roles userToModify);
                 rolesToAdd = filterAddedRoles E rs;
                 newRoles = makeUnique (rolesToKeep @ rolesToAdd)
             in (case repo_save (userToModify\<lparr>roles := newRoles\<rparr>) w1 of
                   (Inl e, w2) \<Rightarrow> (Inl (Fail e), w2)
                 | (Inr saved, w2) \<Rightarrow> (Inr saved, w2))))"

definition getPermissions :: "env \<Rightarrow> string \<Rightarrow> world \<Rightarrow> Permissions failable \<times> world" where
  "getPermissions E uuid w =
     (case findOne uuid w of
        (Inl f, w1) \<Rightarrow> (Inl f, w1)
      | (Inr userToModify, w1) \<Rightarrow> (rolesService_getPermissions E (roles userToModify), w1))"

definition authenticate ::
  "env \<Rightarrow> string \<Rightarrow> string \<Rightarrow> world \<Rightarrow> EUserBackend failable \<times> world" where
  "authenticate E name password w =
     (case findByUsername name True w of
        (Inl f, w1) \<Rightarrow> (Inl f, w1)
      | (Inr user, w1) \<Rightarrow>
          if username user \<in> set (LockedLoginUsersList E)
          then (Inl (Fail ''Wrong username''), w1)
          else
            (let hashed = (case hashedPassword user of None \<Rightarrow> [] | Some h \<Rightarrow> h);
                 w2 = record_call (BcryptCompare password hashed) w1
             in if \<not> bcrypt_compare E password hashed
                then (Inl (Fail ''Wrong password''), w2)
                else findOne (case id_user user of None \<Rightarrow> [] | Some i \<Rightarrow> i) w2))"

section \<open>MainAuthGuard\<close>

text \<open>
  What the guard reads from the execution context: the outcome of the passport
  guard it extends (which may itself throw), the user object on the request,
  the handler's name, and the \<open>permissions\<close> metadata that the reflector finds on
  the handler and on its class.
\<close>

datatype http_exception =
    InternalServerErrorException
  | ForbiddenException string
  | UnauthorizedException

text \<open>
  A metadata value as JavaScript sees it: nothing attached, \<open>null\<close>, an array of
  permissions, or any other value.
\<close>

datatype metadata = Undefined | Null | PermissionsArray Permissions | OtherValue

text \<open>The user object on the request: one that the schema accepts, or any other value.\<close>

datatype request_user = ValidUser EUserBackend | InvalidUser

record ExecutionContext =
  super_canActivate :: "http_exception + bool"
  request_user :: request_user
  handlerName :: string
  handler_permissions :: metadata
  class_permissions :: metadata

text \<open>
  Modelled from the spec: \<open>isPermissionsArray\<close> is imported from
  \<open>models/validators/permissions.validator\<close>, whose text is missing. The guard
  uses it as the type guard \<open>value is Permissions\<close>; the specification calls a
  value that fails it a malformed declaration.
\<close>

fun isPermissionsArray :: "metadata \<Rightarrow> bool" where
  "isPermissionsArray (PermissionsArray ps) = True"
| "isPermissionsArray m = False"

text \<open>
  Modelled from the spec: \<open>EUserSchema\<close> is imported from
  \<open>picsur-shared/dist/entities/user.entity\<close>, whose text is missing. Its
  \<open>safeParse\<close> validates the shape of the resolved identity and returns the
  parsed user, or no success.
\<close>

fun EUserSchema_safeParse :: "request_user \<Rightarrow> EUserBackend option" where
  "EUserSchema_safeParse (ValidUser u) = Some u"
| "EUserSchema_safeParse InvalidUser = None"

text \<open>\<open>a ?? b\<close> is \<open>b\<close> when \<open>a\<close> is \<open>undefined\<close> or \<open>null\<close>, and \<open>a\<close> otherwise.\<close>

fun nullish_coalesce :: "metadata \<Rightarrow> metadata \<Rightarrow> metadata" where
  "nullish_coalesce Undefined b = b"
| "nullish_coalesce Null b = b"
| "nullish_coalesce a b = a"

text \<open>
  After the type guard the value is used as a permissions array; the last case
  of the \<open>case\<close> below is never reached.
\<close>

definition extractPermissions :: "ExecutionContext \<Rightarrow> Permissions failable" where
  "extractPermissions ctx =
     (let permissions = nullish_coalesce (handler_permissions ctx) (class_permissions ctx)
      in if permissions = Undefined
         then Inl (Fail (handlerName ctx @ '' does not have any permissions defined, denying access''))
         else if \<not> isPermissionsArray permissions
         then Inl (Fail (''Permissions for '' @ handlerName ctx @ '' is not a string array''))
         else (case permissions of
                 PermissionsArray ps \<Rightarrow> Inr ps
               | _ \<Rightarrow> Inl (Fail (''Permissions for '' @ handlerName ctx @ '' is not a string array''))))"

definition validateUser :: "request_user \<Rightarrow> http_exception + EUserBackend" where
  "validateUser user =
     (case EUserSchema_safeParse user of
        None \<Rightarrow> Inl InternalServerErrorException
      | Some parsed \<Rightarrow> Inr parsed)"

text \<open>
  \<open>canActivate\<close> returns \<open>true\<close> or throws. \<open>!user.id\<close> holds for an absent and
  for an empty identifier.
\<close>

definition canActivate ::
  "env \<Rightarrow> ExecutionContext \<Rightarrow> world \<Rightarrow> (http_exception + bool) \<times> world" where
  "canActivate E ctx w =
     (case super_canActivate ctx of
        Inl thrown \<Rightarrow> (Inl thrown, w)
      | Inr result \<Rightarrow>
          if result \<noteq> True then (Inl InternalServerErrorException, w)
          else
            (case validateUser (request_user ctx) of
               Inl thrown \<Rightarrow> (Inl thrown, w)
             | Inr user \<Rightarrow>
                 (case id_user user of
                    None \<Rightarrow> (Inl InternalServerErrorException, w)
                  | Some uid \<Rightarrow>
                      if uid = [] then (Inl InternalServerErrorException, w)
                      else
                        (case extractPermissions ctx of
                           Inl f \<Rightarrow> (Inl InternalServerErrorException, w)
                         | Inr permissions \<Rightarrow>
                             (case getPermissions E uid w of
                                (Inl f, w1) \<Rightarrow> (Inl InternalServerErrorException, w1)
                              | (Inr userPermissions, w1) \<Rightarrow>
                                  if list_all (\<lambda>permission. permission \<in> set userPermissions) permissions
                                  then (Inr True, w1)
                                  else (Inl (ForbiddenException ''Permission denied''), w1))))))"

section \<open>Sequences of operations, and the properties of a store\<close>

text \<open>\<open>storage_answers\<close>: the next repository call is carried out (it does not throw).\<close>

definition storage_answers :: "world \<Rightarrow> bool" where
  "storage_answers w = (case faults w of [] \<Rightarrow> True | f # _ \<Rightarrow> f = None)"







section \<open>A concrete configuration and store\<close>

text \<open>
  A configuration in which the default role is not soulbound, and a store with
  a protected system account, the guest account and an ordinary account.
\<close>

definition example_env :: env where
  "example_env =
     \<lparr>DefaultRolesList = [''user''],
      SoulBoundRolesList = [''guest''],
      ImmutableUsersList = [''admin''],
      LockedLoginUsersList = [''guest''],
      UndeletableUsersList = [''admin'', ''guest''],
      bcrypt_hash = (\<lambda>password strength. CHR ''#'' # password),
      bcrypt_compare = (\<lambda>password hashed. hashed = CHR ''#'' # password),
      getNumberPreference_BCryptStrength = Inl (Fail ''no such preference''),
      rolesService_getPermissions =
        (\<lambda>rs. Inr (concat (map (\<lambda>r. if r = ''user'' then [''image-view'', ''image-upload'']
                                     else if r = ''guest'' then [''image-view'']
                                     else []) rs)))\<rparr>"

definition empty_world :: world where
  "empty_world = \<lparr>rows = [], faults = [], calls = []\<rparr>"

definition example_world :: world where
  "example_world =
     \<lparr>rows =
        [\<lparr>id_user = Some ''a1'', username = ''admin'', hashedPassword = Some ''#root'',
          roles = [''admin'', ''user'']\<rparr>,
         \<lparr>id_user = Some ''g1'', username = ''guest'', hashedPassword = Some ''#'',
          roles = [''guest'']\<rparr>,
         \<lparr>id_user = Some ''b1'', username = ''alice'', hashedPassword = Some ''#secret'',
          roles = [''user'', ''editor'']\<rparr>],
      faults = [],
      calls = []\<rparr>"

text \<open>A configuration whose default role set is \<open>[viewer]\<close>.\<close>

definition viewer_env :: env where
  "viewer_env = example_env\<lparr>DefaultRolesList := [''viewer'']\<rparr>"


text \<open>A route whose handler and class both declare permissions, requested by alice.\<close>

definition example_context :: ExecutionContext where
  "example_context =
     \<lparr>super_canActivate = Inr True,
      request_user = ValidUser \<lparr>id_user = Some ''b1'', username = ''alice'',
                                 hashedPassword = None, roles = [''user'', ''editor'']\<rparr>,
      handlerName = ''uploadImage'',
      handler_permissions = PermissionsArray [''image-upload''],
      class_permissions = PermissionsArray [''image-view'']\<rparr>"

text \<open>The same route, requested without credentials: the guest identity.\<close>

definition guest_context :: ExecutionContext where
  "guest_context =
     example_context\<lparr>request_user :=
        ValidUser \<lparr>id_user = Some ''g1'', username = ''guest'', hashedPassword = None,
                    roles = [''guest'']\<rparr>\<rparr>"

section \<open>Facts about the repository and the lookups\<close>

lemma set_makeUnique [simp]: "set (makeUnique xs) = set xs"
  by (induction xs rule: makeUnique.induct) auto

lemma distinct_makeUnique [simp]: "distinct (makeUnique xs)"
  by (induction xs rule: makeUnique.induct) auto

lemma find_Some_mem: "find P xs = Some x \<Longrightarrow> x \<in> set xs \<and> P x"
  by (induction xs) (auto split: if_splits)

lemmas repo_defs =
  repo_findOne_id_def repo_findOne_username_def repo_save_def repo_remove_def
  next_fault_def record_call_def

text \<open>The definitions that evaluate a call on a concrete store.\<close>

lemmas eval_defs =
  authenticate_def create_def setRoles_def delete_def getPermissions_def exists_def
  findByUsername_def findOne_def repo_defs HasSuccess_def HasFailed_def
  getBCryptStrength_def filterAddedRoles_def fresh_id_def merge_row_def without_private_def
  storage_answers_def Let_def

lemma findOne_success:
  assumes "findOne uuid w = (Inr u, w1)"
  shows "storage_answers w"
    and "\<exists>r. find (\<lambda>u. id_user u = Some uuid) (rows w) = Some r \<and> u = without_private r"
    and "w1 = w\<lparr>calls := calls w @ [FindOneById uuid], faults := tl (faults w)\<rparr>"
  using assms
  by (auto simp: findOne_def repo_defs storage_answers_def
      split: list.splits option.splits prod.splits sum.splits if_splits)

lemma findOne_found:
  assumes "find (\<lambda>u. id_user u = Some uuid) (rows w) = Some r" "storage_answers w"
  shows "findOne uuid w =
           (Inr (without_private r),
            w\<lparr>calls := calls w @ [FindOneById uuid], faults := tl (faults w)\<rparr>)"
  using assms
  by (auto simp: findOne_def repo_defs storage_answers_def
      split: list.splits option.splits prod.splits sum.splits if_splits)

lemma findByUsername_found:
  assumes "r \<in> set (rows w)" "username r = name" "storage_answers w"
  shows "\<exists>u. findByUsername name p w =
               (Inr u, w\<lparr>calls := calls w @ [FindOneByUsername name p], faults := tl (faults w)\<rparr>) \<and>
             username u = name"
  using assms
  apply (cases "find (\<lambda>u. username u = name) (rows w)")
   apply (auto simp: findByUsername_def repo_defs storage_answers_def without_private_def
      find_None_iff split: list.splits dest: find_Some_mem)
  done

lemma findByUsername_success:
  assumes "findByUsername name p w = (Inr u, w1)"
  shows "storage_answers w" and "username u = name"
    and "\<exists>r \<in> set (rows w). username r = name"
    and "w1 = w\<lparr>calls := calls w @ [FindOneByUsername name p], faults := tl (faults w)\<rparr>"
  using assms
  by (auto simp: findByUsername_def repo_defs storage_answers_def without_private_def
      split: list.splits option.splits prod.splits sum.splits if_splits dest: find_Some_mem)

lemma findByUsername_failure:
  assumes "findByUsername name p w = (Inl f, w1)"
  shows "w1 = w\<lparr>calls := calls w @ [FindOneByUsername name p], faults := tl (faults w)\<rparr>"
  using assms
  by (auto simp: findByUsername_def repo_defs
      split: list.splits option.splits prod.splits sum.splits if_splits)

lemma findByUsername_fault:
  assumes "faults w = Some e # fs"
  shows "findByUsername name p w =
           (Inl (Fail e), w\<lparr>calls := calls w @ [FindOneByUsername name p], faults := fs\<rparr>)"
  using assms by (simp add: findByUsername_def repo_defs)

lemma findByUsername_absent:
  assumes "\<forall>r \<in> set (rows w). username r \<noteq> name" "storage_answers w"
  shows "findByUsername name p w =
           (Inl (Fail ''User not found''),
            w\<lparr>calls := calls w @ [FindOneByUsername name p], faults := tl (faults w)\<rparr>)"
proof -
  from assms(1) have "find (\<lambda>u. username u = name) (rows w) = None"
    by (simp add: find_None_iff)
  with assms(2) show ?thesis
    by (auto simp: findByUsername_def repo_defs storage_answers_def split: list.splits)
qed

section \<open>Protected accounts\<close>

text \<open>
  C6. For a username in the immutable list and any requested role list,
  \<open>setRoles\<close> returns the current record of the account (as the lookup by
  identifier gives it) as a success, and writes nothing: the table is the same
  afterwards, and the only repository call is the lookup. The account is the row
  that the lookup finds, and the lookup is carried out by the storage.
\<close>

theorem setRoles_immutable:
  assumes "find (\<lambda>u. id_user u = Some uuid) (rows w) = Some r"
      and "username r \<in> set (ImmutableUsersList E)"
      and "storage_answers w"
  shows "fst (setRoles E uuid rs w) = Inr (without_private r) \<and>
         fst (setRoles E uuid rs w) = fst (findOne uuid w) \<and>
         rows (snd (setRoles E uuid rs w)) = rows w \<and>
         calls (snd (setRoles E uuid rs w)) = calls w @ [FindOneById uuid]"
  using assms by (simp add: setRoles_def findOne_found without_private_def)

theorem setRoles_immutable_witness:
  "find (\<lambda>u. id_user u = Some ''a1'') (rows example_world) = Some (hd (rows example_world)) \<and>
   username (hd (rows example_world)) \<in> set (ImmutableUsersList example_env) \<and>
   storage_answers example_world \<and>
   fst (setRoles example_env ''a1'' [''editor''] example_world) =
     Inr \<lparr>id_user = Some ''a1'', username = ''admin'', hashedPassword = None,
          roles = [''admin'', ''user'']\<rparr> \<and>
   rows (snd (setRoles example_env ''a1'' [''editor''] example_world)) = rows example_world \<and>
   calls (snd (setRoles example_env ''a1'' [''editor''] example_world)) = [FindOneById ''a1'']"
proof -
  have h1: "find (\<lambda>u. id_user u = Some ''a1'') (rows example_world) = Some (hd (rows example_world))"
    by (simp add: example_world_def)
  have h2: "username (hd (rows example_world)) \<in> set (ImmutableUsersList example_env)"
    by (simp add: example_world_def example_env_def)
  have h3: "storage_answers example_world"
    by (simp add: example_world_def storage_answers_def)
  show ?thesis
    using h1 h2 h3 setRoles_immutable [OF h1 h2 h3, of "[''editor'']"]
    by (simp add: example_world_def without_private_def)
qed

text \<open>
  C7. For an account whose username is in the undeletable list, \<open>delete\<close>
  fails with the reason \<open>Cannot delete system user\<close>, removes nothing (the table
  is the same afterwards and no \<open>remove\<close> is called), and the account is still
  found afterwards, by identifier and by username.
\<close>

theorem delete_undeletable:
  assumes "find (\<lambda>u. id_user u = Some uuid) (rows w) = Some r"
      and "username r \<in> set (UndeletableUsersList E)"
      and "storage_answers w"
  shows "fst (delete E uuid w) = Inl (Fail ''Cannot delete system user'') \<and>
         rows (snd (delete E uuid w)) = rows w \<and>
         calls (snd (delete E uuid w)) = calls w @ [FindOneById uuid] \<and>
         (storage_answers (snd (delete E uuid w)) \<longrightarrow>
            fst (findOne uuid (snd (delete E uuid w))) = Inr (without_private r) \<and>
            (\<exists>u. fst (findByUsername (username r) getPrivate (snd (delete E uuid w))) = Inr u \<and>
                 username u = username r))"
proof -
  let ?w1 = "w\<lparr>calls := calls w @ [FindOneById uuid], faults := tl (faults w)\<rparr>"
  have d: "delete E uuid w = (Inl (Fail ''Cannot delete system user''), ?w1)"
    using assms by (simp add: delete_def findOne_found without_private_def)
  have r: "r \<in> set (rows ?w1)"
    using assms(1) by (auto dest: find_Some_mem)
  have "fst (findOne uuid ?w1) = Inr (without_private r)" if "storage_answers ?w1"
    using findOne_found[of uuid ?w1 r] assms(1) that by simp
  moreover have "\<exists>u. fst (findByUsername (username r) getPrivate ?w1) = Inr u \<and>
                     username u = username r"
    if "storage_answers ?w1"
    using findByUsername_found[OF r refl that, of getPrivate] by auto
  ultimately show ?thesis using d by simp
qed

theorem delete_undeletable_witness:
  "find (\<lambda>u. id_user u = Some ''g1'') (rows example_world) = Some (rows example_world ! 1) \<and>
   username (rows example_world ! 1) \<in> set (UndeletableUsersList example_env) \<and>
   storage_answers example_world \<and>
   storage_answers (snd (delete example_env ''g1'' example_world)) \<and>
   fst (delete example_env ''g1'' example_world) = Inl (Fail ''Cannot delete system user'') \<and>
   rows (snd (delete example_env ''g1'' example_world)) = rows example_world \<and>
   fst (findOne ''g1'' (snd (delete example_env ''g1'' example_world))) =
     Inr \<lparr>id_user = Some ''g1'', username = ''guest'', hashedPassword = None, roles = [''guest'']\<rparr>"
proof -
  have h1: "find (\<lambda>u. id_user u = Some ''g1'') (rows example_world) = Some (rows example_world ! 1)"
    by (simp add: example_world_def)
  have h2: "username (rows example_world ! 1) \<in> set (UndeletableUsersList example_env)"
    by (simp add: example_world_def example_env_def)
  have h3: "storage_answers example_world"
    by (simp add: example_world_def storage_answers_def)
  have h4: "storage_answers (snd (delete example_env ''g1'' example_world))"
    by (simp add: delete_def findOne_def repo_defs example_world_def example_env_def
        storage_answers_def without_private_def)
  show ?thesis
    using h1 h2 h3 h4 delete_undeletable [OF h1 h2 h3, of False]
    by (simp add: example_world_def without_private_def)
qed

section \<open>Creation\<close>

text \<open>
  C9 (as amended). When an account with the username is stored and the storage
  carries out the lookup by username, \<open>create\<close> fails with the reason
  \<open>User already exists\<close> and writes nothing: the table is the same afterwards,
  and the only repository call is the lookup by username.
\<close>

theorem create_existing_username:
  assumes "r \<in> set (rows w)" and "username r = name" and "storage_answers w"
  shows "fst (create E name password rs byPassRoleCheck w) = Inl (Fail ''User already exists'') \<and>
         rows (snd (create E name password rs byPassRoleCheck w)) = rows w \<and>
         calls (snd (create E name password rs byPassRoleCheck w)) =
           calls w @ [FindOneByUsername name False]"
proof -
  from findByUsername_found[OF assms, of False]
  obtain u where "findByUsername name False w =
      (Inr u, w\<lparr>calls := calls w @ [FindOneByUsername name False], faults := tl (faults w)\<rparr>)"
    by blast
  then show ?thesis
    by (simp add: create_def exists_def HasSuccess_def)
qed

theorem create_existing_username_witness:
  "rows example_world ! 2 \<in> set (rows example_world) \<and>
   username (rows example_world ! 2) = ''alice'' \<and>
   storage_answers example_world \<and>
   fst (create example_env ''alice'' ''pw'' (Some [''editor'']) None example_world) =
     Inl (Fail ''User already exists'') \<and>
   rows (snd (create example_env ''alice'' ''pw'' (Some [''editor'']) None example_world)) =
     rows example_world"
proof -
  have h1: "rows example_world ! 2 \<in> set (rows example_world)"
    by (simp add: example_world_def)
  have h2: "username (rows example_world ! 2) = ''alice''"
    by (simp add: example_world_def)
  have h3: "storage_answers example_world"
    by (simp add: example_world_def storage_answers_def)
  show ?thesis
    using h1 h2 h3
      create_existing_username [OF h1 h2 h3, of example_env "''pw''" "Some [''editor'']" None]
    by simp
qed


text \<open>
  When the repository throws on the lookup, \<open>create\<close> does not fail for a
  stored username: on the concrete store, with \<open>alice\<close> stored, it succeeds and
  a second row for \<open>alice\<close> is written.
\<close>

theorem create_existing_username_lookup_throws:
  "rows example_world ! 2 \<in> set (rows example_world) \<and>
   username (rows example_world ! 2) = ''alice'' \<and>
   fst (create example_env ''alice'' ''pw'' None None
          (example_world\<lparr>faults := [Some ''connection lost'']\<rparr>)) =
     Inr \<lparr>id_user = Some ''uuu'', username = ''alice'', hashedPassword = Some ''#pw'',
          roles = [''user'']\<rparr> \<and>
   fst (create example_env ''alice'' ''pw'' None None
          (example_world\<lparr>faults := [Some ''connection lost'']\<rparr>)) \<noteq>
     Inl (Fail ''User already exists'') \<and>
   rows (snd (create example_env ''alice'' ''pw'' None None
          (example_world\<lparr>faults := [Some ''connection lost'']\<rparr>))) =
     rows example_world @
       [\<lparr>id_user = Some ''uuu'', username = ''alice'', hashedPassword = Some ''#pw'',
          roles = [''user'']\<rparr>] \<and>
   rows (snd (create example_env ''alice'' ''pw'' None None
          (example_world\<lparr>faults := [Some ''connection lost'']\<rparr>))) \<noteq>
     rows (example_world\<lparr>faults := [Some ''connection lost'']\<rparr>)"
  by (simp add: eval_defs example_env_def example_world_def)

section \<open>More on creation\<close>

lemma repo_save_new:
  assumes "id_user u = None"
  shows "repo_save u w =
    (case faults w of
       Some e # fs \<Rightarrow> (Inl e, w\<lparr>calls := calls w @ [Save u], faults := fs\<rparr>)
     | _ \<Rightarrow> (Inr (u\<lparr>id_user := Some (fresh_id (rows w))\<rparr>),
             w\<lparr>calls := calls w @ [Save u], faults := tl (faults w),
               rows := rows w @ [u\<lparr>id_user := Some (fresh_id (rows w))\<rparr>]\<rparr>))"
  using assms
  by (auto simp: repo_defs Let_def split: list.splits option.splits)

lemma create_not_taken:
  assumes "findByUsername name False w = (Inl f, w1)"
  shows "create E name password rs bp w =
     (let user = \<lparr>id_user = None, username = name,
                  hashedPassword = Some (bcrypt_hash E password (getBCryptStrength E)),
                  roles = (if bp = Some True
                           then makeUnique (case rs of None \<Rightarrow> [] | Some l \<Rightarrow> l)
                           else makeUnique (DefaultRolesList E @ filterAddedRoles E (case rs of None \<Rightarrow> [] | Some l \<Rightarrow> l)))\<rparr>
      in case repo_save user (record_call (BcryptHash password (getBCryptStrength E)) w1) of
           (Inl e, w3) \<Rightarrow> (Inl (Fail e), w3)
         | (Inr saved, w3) \<Rightarrow> (Inr saved, w3))"
  using assms by (simp add: create_def exists_def HasSuccess_def Let_def)

lemma create_success:
  assumes "create E name password rs bp w = (Inr acct, w')"
  shows "roles acct = (if bp = Some True
                       then makeUnique (case rs of None \<Rightarrow> [] | Some l \<Rightarrow> l)
                       else makeUnique (DefaultRolesList E @ filterAddedRoles E (case rs of None \<Rightarrow> [] | Some l \<Rightarrow> l)))"
    and "username acct = name"
    and "id_user acct = Some (fresh_id (rows w))"
    and "rows w' = rows w @ [acct]"
proof -
  obtain r w1 where f: "findByUsername name False w = (r, w1)" by (cases "findByUsername name False w")
  with assms obtain e where r: "r = Inl e"
    by (cases r) (auto simp: create_def exists_def HasSuccess_def)
  note w1 = findByUsername_failure[OF f[unfolded r]]
  show "roles acct = (if bp = Some True
                       then makeUnique (case rs of None \<Rightarrow> [] | Some l \<Rightarrow> l)
                       else makeUnique (DefaultRolesList E @ filterAddedRoles E (case rs of None \<Rightarrow> [] | Some l \<Rightarrow> l)))"
    and "username acct = name"
    and "id_user acct = Some (fresh_id (rows w))"
    and "rows w' = rows w @ [acct]"
    using assms unfolding create_not_taken[OF f[unfolded r]] w1
    by (auto simp: repo_save_new record_call_def Let_def split: list.splits option.splits prod.splits sum.splits if_splits)
qed

text \<open>
  C8. A \<open>create\<close> that does not bypass the role check (the flag is omitted or
  false) and succeeds gives the account the deduplicated union of the default
  roles and the requested roles that are not soulbound; the account is stored
  with them. With the default roles \<open>[viewer]\<close> and \<open>editor\<close> not soulbound,
  asking for \<open>[editor]\<close> gives exactly \<open>{viewer, editor}\<close>.
\<close>

theorem create_roles:
  assumes "create E name password rs byPassRoleCheck w = (Inr acct, w')"
      and "byPassRoleCheck \<noteq> Some True"
  shows "set (roles acct) =
           set (DefaultRolesList E) \<union>
           (set (case rs of None \<Rightarrow> [] | Some l \<Rightarrow> l) - set (SoulBoundRolesList E)) \<and>
         distinct (roles acct) \<and>
         acct \<in> set (rows w') \<and>
         (DefaultRolesList E = [''viewer''] \<and> rs = Some [''editor''] \<and>
          ''editor'' \<notin> set (SoulBoundRolesList E) \<longrightarrow>
            set (roles acct) = {''viewer'', ''editor''})"
  using create_success[OF assms(1)] assms(2)
  by (auto simp: filterAddedRoles_def)

theorem create_roles_witness:
  "create viewer_env ''alice'' ''pw'' (Some [''editor'']) (Some False) empty_world =
     (Inr \<lparr>id_user = Some ''u'', username = ''alice'', hashedPassword = Some ''#pw'',
           roles = [''viewer'', ''editor'']\<rparr>,
      \<lparr>rows = [\<lparr>id_user = Some ''u'', username = ''alice'', hashedPassword = Some ''#pw'',
           roles = [''viewer'', ''editor'']\<rparr>],
       faults = [],
       calls = [FindOneByUsername ''alice'' False, BcryptHash ''pw'' 12,
                Save \<lparr>id_user = None, username = ''alice'', hashedPassword = Some ''#pw'',
                      roles = [''viewer'', ''editor'']\<rparr>]\<rparr>) \<and>
   Some False \<noteq> Some True \<and>
   DefaultRolesList viewer_env = [''viewer''] \<and>
   ''editor'' \<notin> set (SoulBoundRolesList viewer_env) \<and>
   set [''viewer'', ''editor''] = {''viewer'', ''editor''} \<and>
   distinct [''viewer'', ''editor'']"
proof -
  have h1: "create viewer_env ''alice'' ''pw'' (Some [''editor'']) (Some False) empty_world =
     (Inr \<lparr>id_user = Some ''u'', username = ''alice'', hashedPassword = Some ''#pw'',
           roles = [''viewer'', ''editor'']\<rparr>,
      \<lparr>rows = [\<lparr>id_user = Some ''u'', username = ''alice'', hashedPassword = Some ''#pw'',
           roles = [''viewer'', ''editor'']\<rparr>],
       faults = [],
       calls = [FindOneByUsername ''alice'' False, BcryptHash ''pw'' 12,
                Save \<lparr>id_user = None, username = ''alice'', hashedPassword = Some ''#pw'',
                      roles = [''viewer'', ''editor'']\<rparr>]\<rparr>)"
    by (simp add: create_def exists_def findByUsername_def repo_defs HasSuccess_def
        getBCryptStrength_def filterAddedRoles_def fresh_id_def Let_def
        viewer_env_def example_env_def empty_world_def)
  have h2: "Some False \<noteq> Some True" by simp
  show ?thesis
    using h1 create_roles [OF h1 h2]
    by (simp add: viewer_env_def example_env_def)
qed

text \<open>
  C10. \<open>exists\<close> is a boolean: true exactly when the lookup by username
  succeeded. When the repository throws on that lookup, the lookup fails with
  the exception, \<open>exists\<close> is false, and \<open>create\<close> goes on: it hashes the
  password and calls \<open>save\<close> with a new entity of that username. Its result
  is then that of the \<open>save\<close> (the new account when the \<open>save\<close> is carried out,
  the exception of the \<open>save\<close> when it throws), not the failure of the lookup.
\<close>

theorem exists_never_fails:
  "fst (exists name w) = HasSuccess (fst (findByUsername name False w)) \<and>
   (faults w = Some e # fs \<longrightarrow>
      fst (findByUsername name False w) = Inl (Fail e) \<and>
      fst (exists name w) = False \<and>
      (\<exists>user. calls (snd (create E name password rs byPassRoleCheck w)) =
                calls w @ [FindOneByUsername name False,
                           BcryptHash password (getBCryptStrength E), Save user] \<and>
              username user = name \<and> id_user user = None) \<and>
      (storage_answers (w\<lparr>faults := fs\<rparr>) \<longrightarrow>
         (\<exists>acct. fst (create E name password rs byPassRoleCheck w) = Inr acct \<and>
                 username acct = name \<and>
                 rows (snd (create E name password rs byPassRoleCheck w)) = rows w @ [acct])) \<and>
      (\<forall>e' fs'. fs = Some e' # fs' \<longrightarrow>
         fst (create E name password rs byPassRoleCheck w) = Inl (Fail e') \<and>
         rows (snd (create E name password rs byPassRoleCheck w)) = rows w))"
proof -
  have a: "fst (exists name w) = HasSuccess (fst (findByUsername name False w))"
    by (simp add: exists_def split: prod.splits)
  have b: ?thesis if f: "faults w = Some e # fs"
  proof -
    note l = findByUsername_fault[OF f, of name False]
    note c = create_not_taken[OF l, of E password rs byPassRoleCheck]
    show ?thesis
      unfolding c using a l
      by (auto simp: repo_save_new record_call_def Let_def storage_answers_def HasSuccess_def
          split: list.splits option.splits)
  qed
  show ?thesis
  proof (cases "faults w = Some e # fs")
    case True
    then show ?thesis by (rule b)
  next
    case False
    then show ?thesis using a by simp
  qed
qed

theorem exists_never_fails_witness:
  "faults (example_world\<lparr>faults := [Some ''connection lost'']\<rparr>) = Some ''connection lost'' # [] \<and>
   storage_answers (example_world\<lparr>faults := []\<rparr>) \<and>
   fst (exists ''alice'' (example_world\<lparr>faults := [Some ''connection lost'']\<rparr>)) = False \<and>
   fst (create example_env ''alice'' ''pw'' None None
          (example_world\<lparr>faults := [Some ''connection lost'']\<rparr>)) =
     Inr \<lparr>id_user = Some ''uuu'', username = ''alice'', hashedPassword = Some ''#pw'',
          roles = [''user'']\<rparr> \<and>
   map username (rows (snd (create example_env ''alice'' ''pw'' None None
          (example_world\<lparr>faults := [Some ''connection lost'']\<rparr>)))) =
     [''admin'', ''guest'', ''alice'', ''alice'']"
proof -
  have h1: "faults (example_world\<lparr>faults := [Some ''connection lost'']\<rparr>) = Some ''connection lost'' # []"
    by simp
  have h2: "storage_answers (example_world\<lparr>faults := []\<rparr>)"
    by (simp add: storage_answers_def)
  have c: "create example_env ''alice'' ''pw'' None None
          (example_world\<lparr>faults := [Some ''connection lost'']\<rparr>) =
      (Inr \<lparr>id_user = Some ''uuu'', username = ''alice'', hashedPassword = Some ''#pw'',
          roles = [''user'']\<rparr>,
       \<lparr>rows = rows example_world @ [\<lparr>id_user = Some ''uuu'', username = ''alice'', hashedPassword = Some ''#pw'',
          roles = [''user'']\<rparr>], faults = [],
        calls = [FindOneByUsername ''alice'' False, BcryptHash ''pw'' 12,
           Save \<lparr>id_user = None, username = ''alice'', hashedPassword = Some ''#pw'',
          roles = [''user'']\<rparr>]\<rparr>)"
    by (simp add: create_def exists_def findByUsername_def repo_defs HasSuccess_def
        getBCryptStrength_def filterAddedRoles_def fresh_id_def Let_def
        example_env_def example_world_def)
  from h1 exists_never_fails [of "''alice''" "example_world\<lparr>faults := [Some ''connection lost'']\<rparr>"
        "''connection lost''" "[]" example_env "''pw''" None None]
  have e: "fst (exists ''alice'' (example_world\<lparr>faults := [Some ''connection lost'']\<rparr>)) = False"
    by blast
  have r: "map username (rows example_world) = [''admin'', ''guest'', ''alice'']"
    by (simp add: example_world_def)
  show ?thesis
    using h1 h2 e r by (simp add: c)
qed

section \<open>Authentication\<close>

text \<open>
  C1 (as amended). For a username in the locked-login list and any password,
  the correct one included, \<open>authenticate\<close> fails, and the only call it makes is
  the lookup by username: bcrypt's \<open>compare\<close> is never called. When the account
  is stored and the lookup is answered the reason is \<open>Wrong username\<close>; a
  username without an account fails with \<open>User not found\<close>, and a wrong
  password for an account that is not locked with \<open>Wrong password\<close>.
\<close>

theorem authenticate_locked:
  assumes "name \<in> set (LockedLoginUsersList E)"
  shows "HasFailed (fst (authenticate E name password w)) \<and>
         calls (snd (authenticate E name password w)) = calls w @ [FindOneByUsername name True] \<and>
         rows (snd (authenticate E name password w)) = rows w \<and>
         ((\<exists>r \<in> set (rows w). username r = name) \<and> storage_answers w \<longrightarrow>
            fst (authenticate E name password w) = Inl (Fail ''Wrong username'')) \<and>
         ((\<forall>r \<in> set (rows w). username r \<noteq> other) \<and> storage_answers w \<longrightarrow>
            fst (authenticate E other password w) = Inl (Fail ''User not found'')) \<and>
         (findByUsername other True w = (Inr u, w1) \<and> other \<notin> set (LockedLoginUsersList E) \<and>
          \<not> bcrypt_compare E password (case hashedPassword u of None \<Rightarrow> [] | Some h \<Rightarrow> h) \<longrightarrow>
            fst (authenticate E other password w) = Inl (Fail ''Wrong password''))"
proof -
  obtain res w' where f: "findByUsername name True w = (res, w')"
    by (cases "findByUsername name True w")
  have locked: "authenticate E name password w = (Inl (Fail ''Wrong username''), w')"
    if "res = Inr found" for found
    using f that assms findByUsername_success(2)[of name True w found w']
    by (simp add: authenticate_def)
  have w': "w' = w\<lparr>calls := calls w @ [FindOneByUsername name True], faults := tl (faults w)\<rparr>"
    using f findByUsername_failure[of name True w _ w'] findByUsername_success(4)[of name True w _ w']
    by (cases res) auto
  have a: "HasFailed (fst (authenticate E name password w)) \<and>
           snd (authenticate E name password w) = w'"
  proof (cases res)
    case (Inl fl)
    with f show ?thesis by (simp add: authenticate_def HasFailed_def)
  next
    case (Inr found)
    from locked[OF this] show ?thesis by (simp add: HasFailed_def)
  qed
  have b: "fst (authenticate E name password w) = Inl (Fail ''Wrong username'')"
    if "\<exists>r \<in> set (rows w). username r = name" "storage_answers w"
  proof -
    from that obtain r where "r \<in> set (rows w)" "username r = name" by blast
    from findByUsername_found[OF this that(2), of True] f locked show ?thesis by auto
  qed
  have c: "fst (authenticate E other password w) = Inl (Fail ''User not found'')"
    if "\<forall>r \<in> set (rows w). username r \<noteq> other" "storage_answers w"
    using findByUsername_absent[OF that, of True] by (simp add: authenticate_def)
  have d: "fst (authenticate E other password w) = Inl (Fail ''Wrong password'')"
    if "findByUsername other True w = (Inr u, w1)" "other \<notin> set (LockedLoginUsersList E)"
       "\<not> bcrypt_compare E password (case hashedPassword u of None \<Rightarrow> [] | Some h \<Rightarrow> h)"
    using that findByUsername_success(2)[OF that(1)]
    by (simp add: authenticate_def Let_def)
  show ?thesis using a b c d by (simp add: w')
qed

theorem authenticate_locked_witness:
  "''guest'' \<in> set (LockedLoginUsersList example_env) \<and>
   storage_answers example_world \<and>
   bcrypt_compare example_env '''' ''#'' \<and>
   authenticate example_env ''guest'' '''' example_world =
     (Inl (Fail ''Wrong username''), example_world\<lparr>calls := [FindOneByUsername ''guest'' True]\<rparr>) \<and>
   fst (authenticate example_env ''nobody'' '''' example_world) = Inl (Fail ''User not found'') \<and>
   fst (authenticate example_env ''alice'' '''' example_world) = Inl (Fail ''Wrong password'')"
proof -
  have h1: "''guest'' \<in> set (LockedLoginUsersList example_env)"
    by (simp add: example_env_def)
  have h2: "storage_answers example_world"
    by (simp add: example_world_def storage_answers_def)
  have h3: "bcrypt_compare example_env '''' ''#''"
    by (simp add: example_env_def)
  have h4: "\<exists>r \<in> set (rows example_world). username r = ''guest''"
    by (simp add: example_world_def)
  have h5: "\<forall>r \<in> set (rows example_world). username r \<noteq> ''nobody''"
    by (simp add: example_world_def)
  have h6: "findByUsername ''alice'' True example_world =
      (Inr (rows example_world ! 2), example_world\<lparr>calls := [FindOneByUsername ''alice'' True]\<rparr>)"
    by (simp add: eval_defs example_world_def)
  have h7: "''alice'' \<notin> set (LockedLoginUsersList example_env)"
    by (simp add: example_env_def)
  have h8: "\<not> bcrypt_compare example_env ''''
              (case hashedPassword (rows example_world ! 2) of None \<Rightarrow> [] | Some h \<Rightarrow> h)"
    by (simp add: example_env_def example_world_def)
  have s: "snd (authenticate example_env ''guest'' '''' example_world) =
             example_world\<lparr>calls := [FindOneByUsername ''guest'' True]\<rparr>"
    by (simp add: eval_defs example_world_def example_env_def)
  note t = authenticate_locked [OF h1, of "''''" example_world]
  from t[of "''nobody''"] h4 h2 have a: "fst (authenticate example_env ''guest'' '''' example_world) = Inl (Fail ''Wrong username'')"
    by blast
  from t[of "''nobody''"] h5 h2 have b: "fst (authenticate example_env ''nobody'' '''' example_world) = Inl (Fail ''User not found'')"
    by blast
  from t[of "''alice''"] h6 h7 h8 have c: "fst (authenticate example_env ''alice'' '''' example_world) = Inl (Fail ''Wrong password'')"
    by blast
  show ?thesis
    using h1 h2 h3 a b c s by (simp add: prod_eq_iff)
qed

text \<open>
  The reasons of the three failures are three different texts: on the concrete
  store, for the locked account \<open>guest\<close>, for a username without an account
  and for a wrong password of \<open>alice\<close>.
\<close>

theorem authenticate_reasons_differ:
  "fst (authenticate example_env ''guest'' '''' example_world) = Inl (Fail ''Wrong username'') \<and>
   fst (authenticate example_env ''nobody'' '''' example_world) = Inl (Fail ''User not found'') \<and>
   fst (authenticate example_env ''alice'' ''wrong'' example_world) = Inl (Fail ''Wrong password'') \<and>
   fst (authenticate example_env ''guest'' '''' example_world) \<noteq>
     fst (authenticate example_env ''nobody'' '''' example_world) \<and>
   fst (authenticate example_env ''guest'' '''' example_world) \<noteq>
     fst (authenticate example_env ''alice'' ''wrong'' example_world)"
  by (simp add: eval_defs example_world_def example_env_def)

section \<open>The guard\<close>

text \<open>
  C4. When the passport guard has let the request through, the user object
  is valid and has an identifier, the required permissions of the route are
  found and the permissions of the user are resolved, \<open>canActivate\<close> returns
  \<open>true\<close> exactly when every required permission is among the permissions of
  the user; so it does whenever nothing is required; and when a required
  permission is missing it throws \<open>ForbiddenException\<close> (\<open>Permission denied\<close>),
  not \<open>InternalServerErrorException\<close>.
\<close>

theorem canActivate_decision:
  assumes "super_canActivate ctx = Inr True"
      and "validateUser (request_user ctx) = Inr user"
      and "id_user user = Some uid" and "uid \<noteq> []"
      and "extractPermissions ctx = Inr required"
      and "getPermissions E uid w = (Inr held, w1)"
  shows "(fst (canActivate E ctx w) = Inr True \<longleftrightarrow> set required \<subseteq> set held) \<and>
         (required = [] \<longrightarrow> fst (canActivate E ctx w) = Inr True) \<and>
         (\<not> set required \<subseteq> set held \<longrightarrow>
            fst (canActivate E ctx w) = Inl (ForbiddenException ''Permission denied''))"
  using assms by (auto simp: canActivate_def list_all_iff)

theorem canActivate_decision_witness:
  "super_canActivate example_context = Inr True \<and>
   validateUser (request_user example_context) =
     Inr \<lparr>id_user = Some ''b1'', username = ''alice'', hashedPassword = None,
          roles = [''user'', ''editor'']\<rparr> \<and>
   ''b1'' \<noteq> [] \<and>
   extractPermissions example_context = Inr [''image-upload''] \<and>
   fst (getPermissions example_env ''b1'' example_world) = Inr [''image-view'', ''image-upload''] \<and>
   set [''image-upload''] \<subseteq> set [''image-view'', ''image-upload''] \<and>
   fst (canActivate example_env example_context example_world) = Inr True \<and>
   fst (getPermissions example_env ''g1'' example_world) = Inr [''image-view''] \<and>
   \<not> set [''image-upload''] \<subseteq> set [''image-view''] \<and>
   fst (canActivate example_env guest_context example_world) =
     Inl (ForbiddenException ''Permission denied'')"
proof -
  let ?user = "\<lparr>id_user = Some ''b1'', username = ''alice'', hashedPassword = None,
          roles = [''user'', ''editor'']\<rparr>"
  let ?guest = "\<lparr>id_user = Some ''g1'', username = ''guest'', hashedPassword = None,
          roles = [''guest'']\<rparr>"
  have h1: "super_canActivate example_context = Inr True"
    by (simp add: example_context_def)
  have h2: "validateUser (request_user example_context) = Inr ?user"
    by (simp add: example_context_def validateUser_def)
  have h3: "id_user ?user = Some ''b1''" by simp
  have h4: "''b1'' \<noteq> []" by simp
  have h5: "extractPermissions example_context = Inr [''image-upload'']"
    by (simp add: example_context_def extractPermissions_def)
  have h6: "getPermissions example_env ''b1'' example_world =
              (Inr [''image-view'', ''image-upload''],
               example_world\<lparr>calls := [FindOneById ''b1'']\<rparr>)"
    by (simp add: getPermissions_def findOne_def repo_defs without_private_def
        example_env_def example_world_def)
  have h7: "set [''image-upload''] \<subseteq> set [''image-view'', ''image-upload'']" by simp
  from canActivate_decision [OF h1 h2 h3 h4 h5 h6] h7
  have a: "fst (canActivate example_env example_context example_world) = Inr True"
    by blast
  have g1: "super_canActivate guest_context = Inr True"
    by (simp add: guest_context_def example_context_def)
  have g2: "validateUser (request_user guest_context) = Inr ?guest"
    by (simp add: guest_context_def validateUser_def)
  have g3: "id_user ?guest = Some ''g1''" by simp
  have g4: "''g1'' \<noteq> []" by simp
  have g5: "extractPermissions guest_context = Inr [''image-upload'']"
    by (simp add: guest_context_def example_context_def extractPermissions_def)
  have g6: "getPermissions example_env ''g1'' example_world =
              (Inr [''image-view''], example_world\<lparr>calls := [FindOneById ''g1'']\<rparr>)"
    by (simp add: getPermissions_def findOne_def repo_defs without_private_def
        example_env_def example_world_def)
  have g7: "\<not> set [''image-upload''] \<subseteq> set [''image-view'']" by simp
  from canActivate_decision [OF g1 g2 g3 g4 g5 g6] g7
  have b: "fst (canActivate example_env guest_context example_world) =
             Inl (ForbiddenException ''Permission denied'')"
    by blast
  from h1 h2 h4 h5 h6 h7 a g6 g7 b show ?thesis by simp
qed

text \<open>
  C5. \<open>extractPermissions\<close> returns the permissions declared on the handler
  when there are some, otherwise (nothing on the handler) those declared on the
  class; with no declaration on either it fails. Whenever it fails, the guard
  throws (the request is never let through), and what it throws is
  \<open>InternalServerErrorException\<close> unless the passport guard has thrown before.
\<close>

theorem extractPermissions_priority:
  "(handler_permissions ctx = PermissionsArray ps \<longrightarrow> extractPermissions ctx = Inr ps) \<and>
   ((handler_permissions ctx = Undefined \<or> handler_permissions ctx = Null) \<and>
    class_permissions ctx = PermissionsArray ps \<longrightarrow> extractPermissions ctx = Inr ps) \<and>
   (handler_permissions ctx = Undefined \<and> class_permissions ctx = Undefined \<longrightarrow>
      extractPermissions ctx =
        Inl (Fail (handlerName ctx @ '' does not have any permissions defined, denying access''))) \<and>
   (extractPermissions ctx = Inl f \<longrightarrow>
      (\<exists>thrown. fst (canActivate E ctx w) = Inl thrown) \<and>
      (super_canActivate ctx = Inr b \<longrightarrow>
         canActivate E ctx w = (Inl InternalServerErrorException, w)))"
proof -
  have a: "handler_permissions ctx = PermissionsArray ps \<longrightarrow> extractPermissions ctx = Inr ps"
    by (simp add: extractPermissions_def)
  have b: "(handler_permissions ctx = Undefined \<or> handler_permissions ctx = Null) \<and>
    class_permissions ctx = PermissionsArray ps \<longrightarrow> extractPermissions ctx = Inr ps"
    by (auto simp: extractPermissions_def)
  have c: "handler_permissions ctx = Undefined \<and> class_permissions ctx = Undefined \<longrightarrow>
      extractPermissions ctx =
        Inl (Fail (handlerName ctx @ '' does not have any permissions defined, denying access''))"
    by (simp add: extractPermissions_def)
  have d: "\<exists>thrown. fst (canActivate E ctx w) = Inl thrown" if "extractPermissions ctx = Inl f"
    using that
    by (auto simp: canActivate_def split: sum.splits option.splits prod.splits)
  have e: "canActivate E ctx w = (Inl InternalServerErrorException, w)"
    if "extractPermissions ctx = Inl f" "super_canActivate ctx = Inr b"
    using that
    by (auto simp: canActivate_def validateUser_def split: sum.splits option.splits prod.splits)
  show ?thesis using a b c d e by blast
qed

theorem extractPermissions_priority_witness:
  "handler_permissions example_context = PermissionsArray [''image-upload''] \<and>
   class_permissions example_context = PermissionsArray [''image-view''] \<and>
   extractPermissions example_context = Inr [''image-upload''] \<and>
   extractPermissions (example_context\<lparr>handler_permissions := Undefined\<rparr>) = Inr [''image-view''] \<and>
   extractPermissions
     (example_context\<lparr>handler_permissions := Undefined, class_permissions := Undefined\<rparr>) =
     Inl (Fail ''uploadImage does not have any permissions defined, denying access'') \<and>
   canActivate example_env
     (example_context\<lparr>handler_permissions := Undefined, class_permissions := Undefined\<rparr>)
     example_world = (Inl InternalServerErrorException, example_world)"
proof -
  let ?c1 = "example_context\<lparr>handler_permissions := Undefined\<rparr>"
  let ?c2 = "example_context\<lparr>handler_permissions := Undefined, class_permissions := Undefined\<rparr>"
  have h1: "handler_permissions example_context = PermissionsArray [''image-upload'']"
    by (simp add: example_context_def)
  have h2: "class_permissions example_context = PermissionsArray [''image-view'']"
    by (simp add: example_context_def)
  have h3: "handler_permissions ?c1 = Undefined \<and> class_permissions ?c1 = PermissionsArray [''image-view'']"
    by (simp add: example_context_def)
  have h4: "handler_permissions ?c2 = Undefined \<and> class_permissions ?c2 = Undefined"
    by simp
  have h5: "super_canActivate ?c2 = Inr True"
    by (simp add: example_context_def)
  have h6: "handlerName ?c2 = ''uploadImage''"
    by (simp add: example_context_def)
  from extractPermissions_priority [of example_context "[''image-upload'']"] h1
  have a: "extractPermissions example_context = Inr [''image-upload'']" by blast
  from extractPermissions_priority [of ?c1 "[''image-view'']"] h3
  have b: "extractPermissions ?c1 = Inr [''image-view'']" by blast
  from extractPermissions_priority [of ?c2] h4
  have c: "extractPermissions ?c2 =
        Inl (Fail (handlerName ?c2 @ '' does not have any permissions defined, denying access''))"
    by blast
  from extractPermissions_priority [of ?c2 _ _ example_env example_world True] c h5
  have d: "canActivate example_env ?c2 example_world = (Inl InternalServerErrorException, example_world)"
    by blast
  show ?thesis using h1 h2 a b c d by (simp add: h6)
qed

section \<open>Role updates\<close>

lemma repo_save_existing:
  assumes "id_user u = Some i" "\<exists>r \<in> set (rows w). id_user r = Some i"
  shows "repo_save u w =
    (case faults w of
       Some e # fs \<Rightarrow> (Inl e, w\<lparr>calls := calls w @ [Save u], faults := fs\<rparr>)
     | _ \<Rightarrow> (Inr u,
             w\<lparr>calls := calls w @ [Save u], faults := tl (faults w),
               rows := map (\<lambda>r. if id_user r = Some i then merge_row u r else r) (rows w)\<rparr>))"
  using assms
  by (auto simp: repo_defs split: list.splits option.splits)

text \<open>What a successful lookup by identifier and a following update of the roles do.\<close>

lemma setRoles_cases:
  assumes "findOne uuid w = (Inr cur, w1)"
  shows "setRoles E uuid rs w =
     (if username cur \<in> set (ImmutableUsersList E) then (Inr cur, w1)
      else let new = makeUnique (filter (\<lambda>role. role \<in> set (SoulBoundRolesList E)) (roles cur) @
                                   filterAddedRoles E rs)
           in (case faults w1 of
                 Some e # fs \<Rightarrow>
                   (Inl (Fail e), w1\<lparr>calls := calls w1 @ [Save (cur\<lparr>roles := new\<rparr>)], faults := fs\<rparr>)
               | _ \<Rightarrow>
                   (Inr (cur\<lparr>roles := new\<rparr>),
                    w1\<lparr>calls := calls w1 @ [Save (cur\<lparr>roles := new\<rparr>)], faults := tl (faults w1),
                       rows := map (\<lambda>r. if id_user r = Some uuid
                                         then r\<lparr>username := username cur, roles := new\<rparr> else r)
                                 (rows w1)\<rparr>)))"
proof -
  from findOne_success[OF assms] obtain r where
    r: "find (\<lambda>u. id_user u = Some uuid) (rows w) = Some r" "cur = without_private r"
    and w1: "w1 = w\<lparr>calls := calls w @ [FindOneById uuid], faults := tl (faults w)\<rparr>"
    by blast
  from find_Some_mem[OF r(1)] have mem: "r \<in> set (rows w)" "id_user r = Some uuid" by auto
  have idc: "id_user cur = Some uuid" "hashedPassword cur = None"
    using r(2) mem by (simp_all add: without_private_def)
  have ex: "\<exists>r \<in> set (rows w1). id_user r = Some uuid"
    using mem w1 by auto
  have m: "merge_row (cur\<lparr>roles := new\<rparr>) x = x\<lparr>username := username cur, roles := new\<rparr>" for new x
    using idc by (simp add: merge_row_def)
  show ?thesis
    using assms idc ex
    by (simp add: setRoles_def Let_def repo_save_existing[where i = uuid] m
        split: list.splits option.splits)
qed


text \<open>
  C3 (as amended). A successful \<open>setRoles\<close> keeps every soulbound role that the
  stored account holds, and its result has no soulbound role that the account did
  not hold. For an account whose username is not in the immutable list, the
  result is the deduplicated union of the held roles that are soulbound and the
  requested roles that are not, and the stored account has these roles. For an
  account whose username is in the immutable list the result is the role list
  as it was, and nothing is written.
\<close>

theorem setRoles_soulbound:
  assumes "setRoles E uuid rs w = (Inr u', w')"
  shows "\<exists>r. find (\<lambda>u. id_user u = Some uuid) (rows w) = Some r \<and>
           (\<forall>role \<in> set (roles r). role \<in> set (SoulBoundRolesList E) \<longrightarrow> role \<in> set (roles u')) \<and>
           (\<forall>role \<in> set (roles u'). role \<in> set (SoulBoundRolesList E) \<longrightarrow> role \<in> set (roles r)) \<and>
           (username r \<notin> set (ImmutableUsersList E) \<longrightarrow>
              roles u' = makeUnique (filter (\<lambda>role. role \<in> set (SoulBoundRolesList E)) (roles r) @
                                     filter (\<lambda>role. role \<notin> set (SoulBoundRolesList E)) rs) \<and>
              set (roles u') =
                (set (roles r) \<inter> set (SoulBoundRolesList E)) \<union> (set rs - set (SoulBoundRolesList E)) \<and>
              distinct (roles u') \<and>
              (\<forall>row \<in> set (rows w'). id_user row = Some uuid \<longrightarrow> roles row = roles u')) \<and>
           (username r \<in> set (ImmutableUsersList E) \<longrightarrow>
              roles u' = roles r \<and> rows w' = rows w)"
proof -
  obtain res w1 where f: "findOne uuid w = (res, w1)" by (cases "findOne uuid w")
  with assms obtain cur where res: "res = Inr cur"
    by (cases res) (auto simp: setRoles_def)
  from findOne_success[OF f[unfolded res]] obtain r where
    r: "find (\<lambda>u. id_user u = Some uuid) (rows w) = Some r" "cur = without_private r"
    and w1: "w1 = w\<lparr>calls := calls w @ [FindOneById uuid], faults := tl (faults w)\<rparr>"
    by blast
  have cr: "roles cur = roles r" "username cur = username r"
    using r(2) by (simp_all add: without_private_def)
  show ?thesis
  proof (cases "username r \<in> set (ImmutableUsersList E)")
    case True
    with assms setRoles_cases[OF f[unfolded res], of E rs] cr w1 r(1)
    show ?thesis by auto
  next
    case False
    with assms setRoles_cases[OF f[unfolded res], of E rs] cr w1 r(1)
    show ?thesis
      by (auto simp: Let_def filterAddedRoles_def split: list.splits option.splits)
  qed
qed

theorem setRoles_soulbound_witness:
  "setRoles example_env ''g1'' [''user'', ''guest'', ''user''] example_world =
     (Inr \<lparr>id_user = Some ''g1'', username = ''guest'', hashedPassword = None,
           roles = [''guest'', ''user'']\<rparr>,
      snd (setRoles example_env ''g1'' [''user'', ''guest'', ''user''] example_world)) \<and>
   find (\<lambda>u. id_user u = Some ''g1'') (rows example_world) = Some (rows example_world ! 1) \<and>
   roles (rows example_world ! 1) = [''guest''] \<and>
   username (rows example_world ! 1) \<notin> set (ImmutableUsersList example_env) \<and>
   SoulBoundRolesList example_env = [''guest''] \<and>
   map roles (rows (snd (setRoles example_env ''g1'' [''user'', ''guest'', ''user''] example_world))) =
     [[''admin'', ''user''], [''guest'', ''user''], [''user'', ''editor'']]"
proof -
  let ?u = "\<lparr>id_user = Some ''g1'', username = ''guest'', hashedPassword = None,
           roles = [''guest'', ''user'']\<rparr>"
  have e: "fst (setRoles example_env ''g1'' [''user'', ''guest'', ''user''] example_world) = Inr ?u"
    by (simp add: eval_defs example_env_def example_world_def)
  have h: "setRoles example_env ''g1'' [''user'', ''guest'', ''user''] example_world =
             (Inr ?u, snd (setRoles example_env ''g1'' [''user'', ''guest'', ''user''] example_world))"
    using e by (simp add: prod_eq_iff)
  have f: "find (\<lambda>u. id_user u = Some ''g1'') (rows example_world) = Some (rows example_world ! 1)"
    by (simp add: example_world_def)
  have g: "roles (rows example_world ! 1) = [''guest'']"
          "username (rows example_world ! 1) \<notin> set (ImmutableUsersList example_env)"
          "SoulBoundRolesList example_env = [''guest'']"
    by (simp_all add: example_world_def example_env_def)
  have m: "map roles (rows (snd (setRoles example_env ''g1'' [''user'', ''guest'', ''user''] example_world))) =
     [[''admin'', ''user''], [''guest'', ''user''], [''user'', ''editor'']]"
    by (simp add: eval_defs example_env_def example_world_def)
  from setRoles_soulbound [OF h] f g
  have t: "set (roles ?u) = (set [''guest''] \<inter> set [''guest'']) \<union>
          (set [''user'', ''guest'', ''user''] - set [''guest''])"
    by auto
  show ?thesis
    using t h f g m by simp
qed

text \<open>
  For the immutable account \<open>admin\<close>, holding \<open>[admin, user]\<close>, a request for
  \<open>[editor]\<close> succeeds and returns \<open>[admin, user]\<close>, whereas the union of the
  held soulbound roles and the requested roles that are not soulbound is
  \<open>{editor}\<close>.
\<close>

theorem immutable_account_keeps_roles:
  "fst (setRoles example_env ''a1'' [''editor''] example_world) =
     Inr \<lparr>id_user = Some ''a1'', username = ''admin'', hashedPassword = None,
          roles = [''admin'', ''user'']\<rparr> \<and>
   roles (hd (rows example_world)) = [''admin'', ''user''] \<and>
   id_user (hd (rows example_world)) = Some ''a1'' \<and>
   (set [''admin'', ''user''] \<inter> set (SoulBoundRolesList example_env)) \<union>
     (set [''editor''] - set (SoulBoundRolesList example_env)) = {''editor''} \<and>
   set [''admin'', ''user''] \<noteq> {''editor''}"
  by (simp add: eval_defs example_env_def example_world_def)

section \<open>Role sets along sequences of operations\<close>



















end
